theory Spec2Isabelle
  imports Main "HOL-Library.Word"
begin

section \<open>The logger binding of examples/py/ddog\_logger.py\<close>

text \<open>
  The script binds four functions of a native logging library through ctypes and
  declares the structures the library hands to the registered callback. The model
  follows the script top to bottom: the structures as records read from a typed
  memory, the two Python globals as a record of module state, the native library
  as a record of functions over an abstract native state, and every exception as
  a value of a sum type.
\<close>

subsection \<open>Values of the foreign memory\<close>

text \<open>
  A ctypes pointer is an address; it is falsy exactly when it is the null
  address. \<open>c_ubyte\<close> is a byte, \<open>c_size_t\<close> an unsigned count,
  \<open>c_int\<close> a 32-bit signed integer. A Python \<open>str\<close> is a sequence of
  Unicode code points. Addresses and counts are natural numbers: the script does
  no arithmetic on them that could wrap, and the limits of the address space are
  not modelled. The field \<open>fields\<close> of \<open>LogEvent\<close> is written
  \<open>fields'\<close>.
\<close>

type_synonym pointer = nat
type_synonym c_ubyte = "8 word"
type_synonym c_size_t = nat
type_synonym c_int = "32 word"
type_synonym str = "nat list"

definition NULL :: pointer where
  "NULL = 0"

definition lit :: "string \<Rightarrow> str" where
  "lit s = map of_char s"

record CharSlice =
  data :: pointer
  len :: c_size_t

record LogField =
  key :: CharSlice
  "value" :: CharSlice

record LogFieldVec =
  ptr :: pointer
  len :: c_size_t
  capacity :: c_size_t

record LogEvent =
  level :: c_int
  message :: CharSlice
  fields' :: LogFieldVec

text \<open>
  The memory the pointers point into, split by the type of the pointee: the bytes
  a \<open>POINTER(c_ubyte)\<close> reads and the structures a \<open>POINTER(LogField)\<close>
  reads. \<open>p[i]\<close> reads at \<open>p + i * sizeof\<close> of the pointee.
\<close>

record memory =
  ubyte_at :: "pointer \<Rightarrow> c_ubyte"
  LogField_at :: "pointer \<Rightarrow> LogField"

definition sizeof_c_ubyte :: nat where
  "sizeof_c_ubyte = 1"

definition sizeof_LogField :: nat where
  "sizeof_LogField = 32"

subsection \<open>Exceptions\<close>

datatype error =
  RuntimeError str
  | UnicodeDecodeError

subsection \<open>\<open>bytes.decode("utf-8", errors=...)\<close>\<close>

text \<open>
  The decoder of the Python runtime, for the two error handlers \<open>strict\<close>
  (the default, raising \<open>UnicodeDecodeError\<close>) and \<open>replace\<close> (which puts
  U+FFFD for each malformed sequence and resumes after it). \<open>utf8_scan\<close> reads
  one sequence at the head of the input: a code point and its length, or the
  length of the malformed prefix (the lead byte and the continuation bytes that
  were still acceptable). Overlong forms, surrogates and code points above
  U+10FFFF are malformed.
\<close>

datatype errors = strict | replace

datatype utf8_step = Decoded nat nat | Invalid nat

definition is_continuation :: "nat \<Rightarrow> bool" where
  "is_continuation b = (128 \<le> b \<and> b < 192)"

fun utf8_scan :: "nat list \<Rightarrow> utf8_step" where
  "utf8_scan [] = Invalid 0"
| "utf8_scan (ch # s) =
    (if ch < 128 then Decoded ch 1
     else if ch < 194 then Invalid 1
     else if ch < 224 then
       (case s of
          [] \<Rightarrow> Invalid 1
        | ch2 # _ \<Rightarrow>
            if is_continuation ch2
            then Decoded ((ch - 192) * 64 + (ch2 - 128)) 2
            else Invalid 1)
     else if ch < 240 then
       (case s of
          [] \<Rightarrow> Invalid 1
        | ch2 # s2 \<Rightarrow>
            if \<not> is_continuation ch2 \<or> (ch = 224 \<and> ch2 < 160) \<or> (ch = 237 \<and> 160 \<le> ch2)
            then Invalid 1
            else
              (case s2 of
                 [] \<Rightarrow> Invalid 2
               | ch3 # _ \<Rightarrow>
                   if is_continuation ch3
                   then Decoded ((ch - 224) * 4096 + (ch2 - 128) * 64 + (ch3 - 128)) 3
                   else Invalid 2))
     else if ch < 245 then
       (case s of
          [] \<Rightarrow> Invalid 1
        | ch2 # s2 \<Rightarrow>
            if \<not> is_continuation ch2 \<or> (ch = 240 \<and> ch2 < 144) \<or> (ch = 244 \<and> 144 \<le> ch2)
            then Invalid 1
            else
              (case s2 of
                 [] \<Rightarrow> Invalid 2
               | ch3 # s3 \<Rightarrow>
                   if \<not> is_continuation ch3 then Invalid 2
                   else
                     (case s3 of
                        [] \<Rightarrow> Invalid 3
                      | ch4 # _ \<Rightarrow>
                          if is_continuation ch4
                          then Decoded ((ch - 240) * 262144 + (ch2 - 128) * 4096
                                        + (ch3 - 128) * 64 + (ch4 - 128)) 4
                          else Invalid 3)))
     else Invalid 1)"

declare utf8_scan.simps [simp del]

definition REPLACEMENT_CHARACTER :: nat where
  "REPLACEMENT_CHARACTER = 65533"

definition emit_char :: "nat \<Rightarrow> error + str \<Rightarrow> error + str" where
  "emit_char c r = (case r of Inl e \<Rightarrow> Inl e | Inr cs \<Rightarrow> Inr (c # cs))"

function utf8_decode :: "errors \<Rightarrow> nat list \<Rightarrow> error + str" where
  "utf8_decode h [] = Inr []"
| "utf8_decode h (b # bs) =
    (case utf8_scan (b # bs) of
       Decoded c n \<Rightarrow> emit_char c (utf8_decode h (drop n (b # bs)))
     | Invalid n \<Rightarrow>
         (case h of
            strict \<Rightarrow> Inl UnicodeDecodeError
          | replace \<Rightarrow> emit_char REPLACEMENT_CHARACTER (utf8_decode h (drop n (b # bs)))))"
  by pat_completeness auto
termination
  by (relation "measure (\<lambda>(h, bs). length bs)")
     (auto simp: utf8_scan.simps split: if_splits list.splits)

subsection \<open>The structures' methods\<close>

text \<open>
  \<open>CharSlice.to_str\<close>: the empty string for a null or empty slice; otherwise the
  \<open>len\<close> bytes at \<open>data\<close>, copied into a bytearray and decoded with
  \<open>errors="replace"\<close>.
\<close>

definition bytearray :: "c_ubyte list \<Rightarrow> nat list" where
  "bytearray byte_array = map unat byte_array"

definition contents :: "memory \<Rightarrow> pointer \<Rightarrow> nat \<Rightarrow> c_ubyte list" where
  "contents m p n = map (\<lambda>i. ubyte_at m (p + i * sizeof_c_ubyte)) [0..<n]"

definition to_str :: "memory \<Rightarrow> CharSlice \<Rightarrow> error + str" where
  "to_str m self =
    (if data self = NULL \<or> CharSlice.len self = 0 then Inr (lit '''')
     else
       let byte_array = contents m (data self) (CharSlice.len self)
       in utf8_decode replace (bytearray byte_array))"

text \<open>
  \<open>LogFieldVec.to_list\<close>: the empty list for a null or empty vector; otherwise
  \<open>self.ptr[i]\<close> for \<open>i\<close> in \<open>range(self.len)\<close>.
\<close>

definition to_list :: "memory \<Rightarrow> LogFieldVec \<Rightarrow> LogField list" where
  "to_list m self =
    (if ptr self = NULL \<or> LogFieldVec.len self = 0 then []
     else map (\<lambda>i. LogField_at m (ptr self + i * sizeof_LogField)) [0..<LogFieldVec.len self])"

subsection \<open>The \<open>LogLevel\<close> class\<close>

definition DEBUG :: int where
  "DEBUG = 0"

definition INFO :: int where
  "INFO = 1"

definition WARN :: int where
  "WARN = 2"

definition ERROR :: int where
  "ERROR = 3"

definition TRACE :: int where
  "TRACE = 4"

text \<open>The attributes the class body binds, in the order it binds them.\<close>

definition LogLevel :: "(string \<times> int) list" where
  "LogLevel =
    [(''DEBUG'', DEBUG), (''INFO'', INFO), (''WARN'', WARN), (''ERROR'', ERROR), (''TRACE'', TRACE)]"

subsection \<open>The native library and the module's globals\<close>

text \<open>
  \<open>CALLBACK_TYPE(callback)\<close> wraps the Python callable \<open>callback\<close> in a ctypes
  function object; the argument is a callable, as its name says, of any type
  \<open>'f\<close>.
\<close>

datatype 'f CFUNCTYPE = CALLBACK_TYPE 'f

text \<open>
  The four functions bound from the shared library, with the argument types the
  script declares. The library is not part of the script: its functions are
  parameters, acting on a native state \<open>'n\<close> of their own. The two functions
  with \<open>restype = c_void_p\<close> return a pointer.
\<close>

record ('f, 'n) CDLL =
  lib_ddog_logger_init :: "c_int \<Rightarrow> 'f CFUNCTYPE \<Rightarrow> 'n \<Rightarrow> pointer \<times> 'n"
  lib_ddog_logger_set_max_log_level :: "c_int \<Rightarrow> 'n \<Rightarrow> pointer \<times> 'n"
  lib_trigger_logs :: "'n \<Rightarrow> 'n"
  lib_trigger_logs_with_args :: "'n \<Rightarrow> 'n"

text \<open>
  Passing a Python int where \<open>argtypes\<close> says \<open>c_int\<close> keeps its low 32 bits.
  A \<open>c_void_p\<close> result reaches Python as \<open>None\<close> when the pointer is null and
  as the address, an int, otherwise; \<open>None\<close> and \<open>0\<close> are falsy.
\<close>

definition c_int_from_param :: "int \<Rightarrow> c_int" where
  "c_int_from_param i = word_of_int i"

definition c_void_p :: "pointer \<Rightarrow> nat option" where
  "c_void_p p = (if p = NULL then None else Some p)"

definition truthy :: "nat option \<Rightarrow> bool" where
  "truthy r = (case r of None \<Rightarrow> False | Some a \<Rightarrow> a \<noteq> 0)"

text \<open>
  The state the wrappers act on: the module global \<open>_callback_holder\<close>
  (initially \<open>None\<close>) and the state of the loaded library.
\<close>

record ('f, 'n) world =
  callback_holder :: "'f CFUNCTYPE option"
  native :: 'n

definition error_message :: str where
  "error_message =
    lit ''Rust returned an error (Box<Error>) '' @ [8212]
    @ lit '' need ddog_error_message for details''"

definition check_error :: "nat option \<Rightarrow> error + unit" where
  "check_error result = (if truthy result then Inl (RuntimeError error_message) else Inr ())"

subsection \<open>The public wrappers\<close>

text \<open>
  Each wrapper returns what the call returns or raises, and the state it leaves;
  the state is left as it is at the moment of the raise.
\<close>

definition ddog_logger_init ::
  "('f, 'n) CDLL \<Rightarrow> int \<Rightarrow> 'f \<Rightarrow> ('f, 'n) world \<Rightarrow> (error + unit) \<times> ('f, 'n) world" where
  "ddog_logger_init lib lvl callback w =
    (let cb = CALLBACK_TYPE callback;
         w1 = w\<lparr>callback_holder := Some cb\<rparr>;
         (result, n) = lib_ddog_logger_init lib (c_int_from_param lvl) cb (native w1)
     in (check_error (c_void_p result), w1\<lparr>native := n\<rparr>))"

definition ddog_logger_set_max_log_level ::
  "('f, 'n) CDLL \<Rightarrow> int \<Rightarrow> ('f, 'n) world \<Rightarrow> (error + unit) \<times> ('f, 'n) world" where
  "ddog_logger_set_max_log_level lib lvl w =
    (let (result, n) = lib_ddog_logger_set_max_log_level lib (c_int_from_param lvl) (native w)
     in (check_error (c_void_p result), w\<lparr>native := n\<rparr>))"

definition trigger_logs ::
  "('f, 'n) CDLL \<Rightarrow> ('f, 'n) world \<Rightarrow> (error + unit) \<times> ('f, 'n) world" where
  "trigger_logs lib w = (Inr (), w\<lparr>native := lib_trigger_logs lib (native w)\<rparr>)"

definition trigger_logs_with_args ::
  "('f, 'n) CDLL \<Rightarrow> ('f, 'n) world \<Rightarrow> (error + unit) \<times> ('f, 'n) world" where
  "trigger_logs_with_args lib w =
    (Inr (), w\<lparr>native := lib_trigger_logs_with_args lib (native w)\<rparr>)"

text \<open>
  A program over the wrappers: calls made one after the other, each one's
  exception caught by the caller, so that the state after any sequence of calls
  can be spoken of.
\<close>

datatype 'f call =
  Init int 'f
  | SetMaxLogLevel int
  | TriggerLogs
  | TriggerLogsWithArgs

fun is_Init :: "'f call \<Rightarrow> bool" where
  "is_Init (Init _ _) = True"
| "is_Init _ = False"

fun perform ::
  "('f, 'n) CDLL \<Rightarrow> 'f call \<Rightarrow> ('f, 'n) world \<Rightarrow> (error + unit) \<times> ('f, 'n) world" where
  "perform lib (Init lvl callback) w = ddog_logger_init lib lvl callback w"
| "perform lib (SetMaxLogLevel lvl) w = ddog_logger_set_max_log_level lib lvl w"
| "perform lib TriggerLogs w = trigger_logs lib w"
| "perform lib TriggerLogsWithArgs w = trigger_logs_with_args lib w"

fun run :: "('f, 'n) CDLL \<Rightarrow> 'f call list \<Rightarrow> ('f, 'n) world \<Rightarrow> ('f, 'n) world" where
  "run lib [] w = w"
| "run lib (c # cs) w = run lib cs (snd (perform lib c w))"

subsection \<open>The example callback\<close>

text \<open>\<open>str(i)\<close> of a Python int, as the f-strings format it: decimal, with a minus sign.\<close>

function str_nat :: "nat \<Rightarrow> str" where
  "str_nat n = (if n < 10 then [48 + n] else str_nat (n div 10) @ [48 + n mod 10])"
  by pat_completeness auto
termination
  by (relation "measure id") auto

declare str_nat.simps [simp del]

definition str_int :: "int \<Rightarrow> str" where
  "str_int i = (if i < 0 then lit ''-'' @ str_nat (nat (- i)) else str_nat (nat i))"

text \<open>\<open>d.get(k, default)\<close> on a dict literal with distinct keys.\<close>

definition dict_get :: "('k \<times> 'v) list \<Rightarrow> 'k \<Rightarrow> 'v \<Rightarrow> 'v" where
  "dict_get d k dflt = (case map_of d k of Some v \<Rightarrow> v | None \<Rightarrow> dflt)"

text \<open>
  The local \<open>level_name\<close> of \<open>log_callback\<close>; reading the \<open>c_int\<close> field
  \<open>event.level\<close> gives its signed value.
\<close>

definition level_name :: "LogEvent \<Rightarrow> str" where
  "level_name event =
    dict_get
      [(DEBUG, lit ''DEBUG''), (INFO, lit ''INFO''), (WARN, lit ''WARN''),
       (ERROR, lit ''ERROR''), (TRACE, lit ''TRACE'')]
      (sint (level event))
      (lit ''UNKNOWN('' @ str_int (sint (level event)) @ lit '')'')"

text \<open>\<open>print\<close> appends a line to the standard output.\<close>

definition print :: "str \<Rightarrow> str list \<Rightarrow> str list" where
  "print line out = out @ [line]"

text \<open>The loop over \<open>event.fields.to_list()\<close>.\<close>

fun print_fields ::
  "memory \<Rightarrow> LogField list \<Rightarrow> str list \<Rightarrow> (error + unit) \<times> str list" where
  "print_fields m [] out = (Inr (), out)"
| "print_fields m (field # rest) out =
    (case to_str m (key field) of
       Inl e \<Rightarrow> (Inl e, out)
     | Inr k \<Rightarrow>
         (case to_str m (value field) of
            Inl e \<Rightarrow> (Inl e, out)
          | Inr v \<Rightarrow> print_fields m rest (print (lit ''  '' @ k @ lit '' = '' @ v) out)))"

text \<open>
  \<open>log_callback\<close>, given the memory the event points into, the text of
  \<open>threading.current_thread()\<close> and the standard output so far.
\<close>

definition log_callback ::
  "memory \<Rightarrow> str \<Rightarrow> LogEvent \<Rightarrow> str list \<Rightarrow> (error + unit) \<times> str list" where
  "log_callback m thread_id event out =
    (let out1 = print (lit ''['' @ thread_id @ lit '']'') out
     in case to_str m (message event) of
          Inl e \<Rightarrow> (Inl e, out1)
        | Inr msg \<Rightarrow>
            let out2 = print (lit ''['' @ level_name event @ lit ''] '' @ msg) out1
            in print_fields m (to_list m (fields' event)) out2)"

subsection \<open>The emission contract of the native library\<close>

text \<open>
  Modelled from the spec: the level filter, the sink registration and \<open>emit\<close> of
  the native library, none of which is in the script. A logger holds one threshold
  and at most one sink; levels are ordered by their numeric values; \<open>emit\<close>
  delivers an event with no fields to the registered sink when the level is at or
  above the threshold and does nothing otherwise. The result of \<open>emit\<close> is the
  sequence of sink invocations it made before returning.
\<close>

datatype Level = Debug | Info | Warn | Error | Trace

text \<open>
  Modelled from the spec: the total order of the levels, absent from the script;
  it is the order of the numeric values of \<open>LogLevel\<close>, which puts
  \<open>Trace\<close> above \<open>Error\<close>.
\<close>

fun level_value :: "Level \<Rightarrow> int" where
  "level_value Debug = DEBUG"
| "level_value Info = INFO"
| "level_value Warn = WARN"
| "level_value Error = ERROR"
| "level_value Trace = TRACE"

text \<open>
  Modelled from the spec: an event is a level, a message and an ordered sequence
  of fields, each a key and a value.
\<close>

record Event =
  event_level :: Level
  event_message :: str
  event_fields :: "(str \<times> str) list"

text \<open>
  Modelled from the spec: the state of the native logger, absent from the script:
  one threshold and at most one registered sink.
\<close>

record 'f logger =
  threshold :: Level
  sink :: "'f option"

text \<open>
  Modelled from the spec: \<open>init\<close> of the native library, when it succeeds,
  sets the threshold and stores the callback, replacing any previous one.
\<close>

definition init :: "Level \<Rightarrow> 'f \<Rightarrow> 'f logger \<Rightarrow> 'f logger" where
  "init lvl callback lg = \<lparr>threshold = lvl, sink = Some callback\<rparr>"

text \<open>
  Modelled from the spec: \<open>set_max_level\<close> of the native library replaces the
  threshold and nothing else.
\<close>

definition set_max_level :: "Level \<Rightarrow> 'f logger \<Rightarrow> 'f logger" where
  "set_max_level lvl lg = lg\<lparr>threshold := lvl\<rparr>"

text \<open>
  Modelled from the spec: \<open>emit_with_fields\<close> of the native library. At or
  above the threshold it delivers one event, with the fields in the order given,
  to the registered sink; below the threshold, or with no sink registered, it does
  nothing.
\<close>

definition emit_with_fields ::
  "Level \<Rightarrow> str \<Rightarrow> (str \<times> str) list \<Rightarrow> 'f logger \<Rightarrow> ('f \<times> Event) list" where
  "emit_with_fields lvl msg fs lg =
    (if level_value (threshold lg) \<le> level_value lvl
     then (case sink lg of
             None \<Rightarrow> []
           | Some f \<Rightarrow> [(f, \<lparr>event_level = lvl, event_message = msg, event_fields = fs\<rparr>)])
     else [])"

text \<open>
  Modelled from the spec: \<open>emit\<close> of the native library is
  \<open>emit_with_fields\<close> with an empty field sequence.
\<close>

definition emit :: "Level \<Rightarrow> str \<Rightarrow> 'f logger \<Rightarrow> ('f \<times> Event) list" where
  "emit lvl msg lg = emit_with_fields lvl msg [] lg"

subsection \<open>A library for running the wrappers\<close>

text \<open>
  A stand-in for the loaded library, to run the wrappers on: it keeps the
  registered callback and the level, accepts the first registration and answers
  every later one with a non-null error pointer, leaving its state as it was.
\<close>

record 'f registry =
  registered :: "'f CFUNCTYPE option"
  max_level :: c_int

definition once_lib :: "('f, 'f registry) CDLL" where
  "once_lib =
    \<lparr>lib_ddog_logger_init =
       (\<lambda>lvl cb n.
          case registered n of
            None \<Rightarrow> (NULL, \<lparr>registered = Some cb, max_level = lvl\<rparr>)
          | Some _ \<Rightarrow> (4096, n)),
     lib_ddog_logger_set_max_log_level = (\<lambda>lvl n. (NULL, n\<lparr>max_level := lvl\<rparr>)),
     lib_trigger_logs = (\<lambda>n. n),
     lib_trigger_logs_with_args = (\<lambda>n. n)\<rparr>"

definition fresh :: "(nat, nat registry) world" where
  "fresh = \<lparr>callback_holder = None, native = \<lparr>registered = None, max_level = 0\<rparr>\<rparr>"

definition registered_1 :: "(nat, nat registry) world" where
  "registered_1 =
    \<lparr>callback_holder = Some (CALLBACK_TYPE 1),
     native = \<lparr>registered = Some (CALLBACK_TYPE 1), max_level = 0\<rparr>\<rparr>"

subsection \<open>A memory and an event for running the methods\<close>

text \<open>
  Five bytes at address 100 (\<open>h\<close>, the two bytes of U+00E9, the stray byte
  \<open>0xFF\<close>, \<open>!\<close>), the texts \<open>k\<close>, \<open>1\<close> and \<open>2\<close>, and two fields at
  address 1000 that carry the same key.
\<close>

definition sample_memory :: memory where
  "sample_memory =
    \<lparr>ubyte_at =
       (\<lambda>a. if a = 100 then 104 else if a = 101 then 195 else if a = 102 then 169
            else if a = 103 then 255 else if a = 104 then 33
            else if a = 200 then 107 else if a = 300 then 49 else if a = 301 then 50 else 0),
     LogField_at =
       (\<lambda>a. if a = 1000
            then \<lparr>key = \<lparr>data = 200, len = 1\<rparr>, value = \<lparr>data = 300, len = 1\<rparr>\<rparr>
            else if a = 1032
            then \<lparr>key = \<lparr>data = 200, len = 1\<rparr>, value = \<lparr>data = 301, len = 1\<rparr>\<rparr>
            else \<lparr>key = \<lparr>data = 0, len = 0\<rparr>, value = \<lparr>data = 0, len = 0\<rparr>\<rparr>)\<rparr>"

definition sample_event :: LogEvent where
  "sample_event =
    \<lparr>level = 7, message = \<lparr>data = 100, len = 5\<rparr>,
     fields' = \<lparr>ptr = 1000, len = 2, capacity = 2\<rparr>\<rparr>"

section \<open>Properties\<close>

subsection \<open>The decoder\<close>

lemma utf8_decode_replace_total: "\<exists>r. utf8_decode replace bs = Inr r"
  by (induction replace bs rule: utf8_decode.induct)
     (auto simp: emit_char_def split: utf8_step.splits sum.splits)

lemma emit_char_Inr: "emit_char c (Inr cs) = Inr (c # cs)"
  by (simp add: emit_char_def)

lemma emit_char_eq_Inr: "(emit_char c r = Inr cs) = (\<exists>cs'. r = Inr cs' \<and> cs = c # cs')"
  by (cases r) (auto simp: emit_char_def)

lemma utf8_decode_strict_Inr:
  "utf8_decode strict bs = Inr r \<Longrightarrow> utf8_decode replace bs = Inr r"
proof (induction bs arbitrary: r rule: length_induct)
  case (1 bs)
  show ?case
  proof (cases bs)
    case Nil
    with 1 show ?thesis by simp
  next
    case (Cons b bs')
    show ?thesis
    proof (cases "utf8_scan (b # bs')")
      case (Decoded c n)
      have n: "0 < n"
        using Decoded by (auto simp: utf8_scan.simps split: if_splits list.splits)
      from 1(2) Cons Decoded obtain r' where
        r': "utf8_decode strict (drop n (b # bs')) = Inr r'" "r = c # r'"
        by (auto simp: emit_char_eq_Inr)
      have "length (drop n (b # bs')) < length bs"
        using n Cons by simp
      with 1(1) r'(1) have "utf8_decode replace (drop n (b # bs')) = Inr r'"
        by blast
      with Cons Decoded r'(2) show ?thesis
        by (simp add: emit_char_Inr)
    next
      case (Invalid n)
      with 1(2) Cons show ?thesis by simp
    qed
  qed
qed

lemma utf8_decode_strict_Inl:
  "utf8_decode strict bs = Inl e \<Longrightarrow>
     \<exists>r. utf8_decode replace bs = Inr r \<and> REPLACEMENT_CHARACTER \<in> set r"
proof (induction bs rule: length_induct)
  case (1 bs)
  show ?case
  proof (cases bs)
    case Nil
    with 1 show ?thesis by simp
  next
    case (Cons b bs')
    show ?thesis
    proof (cases "utf8_scan (b # bs')")
      case (Decoded c n)
      have n: "0 < n"
        using Decoded by (auto simp: utf8_scan.simps split: if_splits list.splits)
      from 1(2) Cons Decoded have "utf8_decode strict (drop n (b # bs')) = Inl e"
        by (cases "utf8_decode strict (drop n (b # bs'))") (auto simp: emit_char_def)
      moreover have "length (drop n (b # bs')) < length bs"
        using n Cons by simp
      ultimately obtain r' where
        "utf8_decode replace (drop n (b # bs')) = Inr r'" "REPLACEMENT_CHARACTER \<in> set r'"
        using 1(1) by blast
      with Cons Decoded show ?thesis
        by (simp add: emit_char_Inr)
    next
      case (Invalid n)
      obtain r' where "utf8_decode replace (drop n (b # bs')) = Inr r'"
        using utf8_decode_replace_total by blast
      with Cons Invalid show ?thesis
        by (simp add: emit_char_Inr)
    qed
  qed
qed

lemma to_str_total: "\<exists>r. to_str m s = Inr r"
  using utf8_decode_replace_total by (simp add: to_str_def Let_def)

lemma sample_bytes:
  "map (\<lambda>i. unat (ubyte_at sample_memory (100 + i))) [0..<5] = [104, 195, 169, 255, 33]"
  by (simp add: sample_memory_def upt_rec)

lemma sample_strict: "utf8_decode strict [104, 195, 169, 255, 33] = Inl UnicodeDecodeError"
  by (simp add: utf8_scan.simps is_continuation_def emit_char_def)

lemma sample_replace: "utf8_decode replace [104, 195, 169, 255, 33] = Inr [104, 233, 65533, 33]"
  by (simp add: utf8_scan.simps is_continuation_def emit_char_def REPLACEMENT_CHARACTER_def)

subsection \<open>The error check and the wrappers\<close>

lemma c_void_p_truthy: "truthy (c_void_p p) = (p \<noteq> NULL)"
  by (simp add: truthy_def c_void_p_def NULL_def)

lemma check_error_Inr: "(check_error (c_void_p p) = Inr ()) = (p = NULL)"
  by (simp add: check_error_def c_void_p_truthy)

lemma check_error_Inl: "(check_error (c_void_p p) = Inl (RuntimeError error_message)) = (p \<noteq> NULL)"
  by (simp add: check_error_def c_void_p_truthy)

lemma ddog_logger_init_eq:
  "ddog_logger_init lib lvl callback w =
     (check_error (c_void_p (fst (lib_ddog_logger_init lib (c_int_from_param lvl) (CALLBACK_TYPE callback) (native w)))),
      \<lparr>callback_holder = Some (CALLBACK_TYPE callback),
       native = snd (lib_ddog_logger_init lib (c_int_from_param lvl) (CALLBACK_TYPE callback) (native w))\<rparr>)"
  by (simp add: ddog_logger_init_def Let_def split: prod.splits)

lemma ddog_logger_set_max_log_level_eq:
  "ddog_logger_set_max_log_level lib lvl w =
     (check_error (c_void_p (fst (lib_ddog_logger_set_max_log_level lib (c_int_from_param lvl) (native w)))),
      w\<lparr>native := snd (lib_ddog_logger_set_max_log_level lib (c_int_from_param lvl) (native w))\<rparr>)"
  by (simp add: ddog_logger_set_max_log_level_def Let_def split: prod.splits)

lemma once_lib_simps:
  "lib_ddog_logger_init once_lib lvl cb n =
     (case registered n of None \<Rightarrow> (NULL, \<lparr>registered = Some cb, max_level = lvl\<rparr>) | Some _ \<Rightarrow> (4096, n))"
  "lib_ddog_logger_set_max_log_level once_lib lvl n = (NULL, n\<lparr>max_level := lvl\<rparr>)"
  "lib_trigger_logs once_lib n = n"
  "lib_trigger_logs_with_args once_lib n = n"
  by (simp_all add: once_lib_def)

lemma perform_holder:
  "\<not> is_Init c \<Longrightarrow> callback_holder (snd (perform lib c w)) = callback_holder w"
  by (cases c) (simp_all add: ddog_logger_set_max_log_level_eq trigger_logs_def trigger_logs_with_args_def)

lemma run_holder:
  "\<forall>c \<in> set cs. \<not> is_Init c \<Longrightarrow> callback_holder (run lib cs w) = callback_holder w"
  by (induction cs arbitrary: w) (simp_all add: perform_holder)

subsection \<open>The example callback\<close>

lemma print_fields_total:
  "\<exists>ls. print_fields m fs out = (Inr (), out @ ls) \<and> length ls = length fs"
proof (induction fs arbitrary: out)
  case Nil
  show ?case by simp
next
  case (Cons f fs)
  obtain k where k: "to_str m (key f) = Inr k"
    using to_str_total by blast
  obtain v where v: "to_str m (value f) = Inr v"
    using to_str_total by blast
  obtain ls where "print_fields m fs (print (lit ''  '' @ k @ lit '' = '' @ v) out)
                     = (Inr (), print (lit ''  '' @ k @ lit '' = '' @ v) out @ ls)"
    "length ls = length fs"
    using Cons.IH by blast
  then have "print_fields m (f # fs) out = (Inr (), out @ ((lit ''  '' @ k @ lit '' = '' @ v) # ls))
             \<and> length ((lit ''  '' @ k @ lit '' = '' @ v) # ls) = length (f # fs)"
    using k v by (simp add: print_def)
  then show ?case by blast
qed

lemma level_name_cases:
  "level_name ev =
     (if sint (level ev) = 0 then lit ''DEBUG''
      else if sint (level ev) = 1 then lit ''INFO''
      else if sint (level ev) = 2 then lit ''WARN''
      else if sint (level ev) = 3 then lit ''ERROR''
      else if sint (level ev) = 4 then lit ''TRACE''
      else lit ''UNKNOWN('' @ str_int (sint (level ev)) @ lit '')'')"
  by (simp add: level_name_def dict_get_def DEBUG_def INFO_def WARN_def ERROR_def TRACE_def)

lemma str_nat_7: "str_nat 7 = [55]"
  by (simp add: str_nat.simps)

lemma str_nat_12: "str_nat 12 = [49, 50]"
  by (simp add: str_nat.simps [of 12] str_nat.simps [of 1] str_nat.simps [of "Suc 0"])

lemma sample_to_str:
  "to_str sample_memory \<lparr>data = 100, len = 5\<rparr> = Inr [104, 233, 65533, 33]"
  "to_str sample_memory \<lparr>data = 200, len = 1\<rparr> = Inr [107]"
  "to_str sample_memory \<lparr>data = 300, len = 1\<rparr> = Inr [49]"
  "to_str sample_memory \<lparr>data = 301, len = 1\<rparr> = Inr [50]"
  by (simp_all add: to_str_def NULL_def contents_def bytearray_def sizeof_c_ubyte_def
        sample_memory_def upt_rec utf8_scan.simps is_continuation_def emit_char_def
        REPLACEMENT_CHARACTER_def)

lemma sample_to_list:
  "to_list sample_memory \<lparr>ptr = 1000, len = 2, capacity = 2\<rparr> =
     [\<lparr>key = \<lparr>data = 200, len = 1\<rparr>, value = \<lparr>data = 300, len = 1\<rparr>\<rparr>,
      \<lparr>key = \<lparr>data = 200, len = 1\<rparr>, value = \<lparr>data = 301, len = 1\<rparr>\<rparr>]"
  by (simp add: to_list_def NULL_def sizeof_LogField_def sample_memory_def upt_rec)

lemma sample_event_output:
  "log_callback sample_memory (lit ''main'') sample_event [] =
     (Inr (), [lit ''[main]'', lit ''[UNKNOWN(7)] h'' @ [233, 65533] @ lit ''!'',
               lit ''  k = 1'', lit ''  k = 2''])"
  by (simp add: log_callback_def sample_event_def sample_to_str [unfolded One_nat_def]
        sample_to_list [unfolded One_nat_def] print_def level_name_cases str_int_def
        str_nat_7 lit_def)

subsection \<open>The claims\<close>

text \<open>
  C1: \<open>ddog_logger_init\<close> and \<open>ddog_logger_set_max_log_level\<close> raise
  \<open>RuntimeError\<close> exactly when the native function returns a non-null pointer,
  and return \<open>None\<close> with no exception exactly when it returns null.
\<close>

theorem wrappers_raise_iff_nonnull:
  "(fst (ddog_logger_init lib lvl callback w) = Inl (RuntimeError error_message))
     = (fst (lib_ddog_logger_init lib (c_int_from_param lvl) (CALLBACK_TYPE callback) (native w)) \<noteq> NULL)
   \<and> (fst (ddog_logger_init lib lvl callback w) = Inr ())
     = (fst (lib_ddog_logger_init lib (c_int_from_param lvl) (CALLBACK_TYPE callback) (native w)) = NULL)
   \<and> (fst (ddog_logger_set_max_log_level lib lvl w) = Inl (RuntimeError error_message))
     = (fst (lib_ddog_logger_set_max_log_level lib (c_int_from_param lvl) (native w)) \<noteq> NULL)
   \<and> (fst (ddog_logger_set_max_log_level lib lvl w) = Inr ())
     = (fst (lib_ddog_logger_set_max_log_level lib (c_int_from_param lvl) (native w)) = NULL)"
  by (simp add: ddog_logger_init_eq ddog_logger_set_max_log_level_eq check_error_Inr check_error_Inl)

theorem wrappers_raise_iff_nonnull_witness:
  "fst (ddog_logger_init once_lib 0 7 fresh) = Inr ()
   \<and> fst (ddog_logger_init once_lib 0 7 registered_1) = Inl (RuntimeError error_message)
   \<and> fst (ddog_logger_set_max_log_level once_lib 3 registered_1) = Inr ()"
  using wrappers_raise_iff_nonnull [of once_lib 0 7 fresh]
    wrappers_raise_iff_nonnull [of once_lib 0 7 registered_1]
    wrappers_raise_iff_nonnull [of once_lib 3 7 registered_1]
  by (simp add: once_lib_simps fresh_def registered_1_def NULL_def)

text \<open>
  C2: \<open>LogLevel\<close> binds exactly the five names, to \<open>DEBUG = 0\<close>,
  \<open>INFO = 1\<close>, \<open>WARN = 2\<close>, \<open>ERROR = 3\<close>, \<open>TRACE = 4\<close>; in the numeric
  order \<open>TRACE\<close> is the greatest value, above \<open>ERROR\<close>.
\<close>

theorem LogLevel_values:
  "LogLevel = [(''DEBUG'', 0), (''INFO'', 1), (''WARN'', 2), (''ERROR'', 3), (''TRACE'', 4)]
   \<and> length LogLevel = 5
   \<and> distinct (map fst LogLevel)
   \<and> DEBUG < INFO \<and> INFO < WARN \<and> WARN < ERROR \<and> ERROR < TRACE
   \<and> Max (snd ` set LogLevel) = TRACE"
  by (simp add: LogLevel_def DEBUG_def INFO_def WARN_def ERROR_def TRACE_def)

text \<open>
  C3: for a slice with a non-null \<open>data\<close> and a positive \<open>len\<close>,
  \<open>to_str\<close> is the decoding with \<open>errors="replace"\<close> of exactly the
  \<open>len\<close> bytes at \<open>data\<close>. It never raises: where strict decoding would
  succeed the result is the strictly decoded text, and where strict decoding
  would raise the result holds U+FFFD in place of what is malformed.
\<close>

theorem to_str_decodes_lossy:
  "data s \<noteq> NULL \<Longrightarrow> 0 < CharSlice.len s \<Longrightarrow>
     to_str m s =
       utf8_decode replace (map (\<lambda>i. unat (ubyte_at m (data s + i))) [0..<CharSlice.len s])
     \<and> (\<exists>r. to_str m s = Inr r
          \<and> (\<forall>r'. utf8_decode strict (map (\<lambda>i. unat (ubyte_at m (data s + i))) [0..<CharSlice.len s]) = Inr r'
                \<longrightarrow> r = r')
          \<and> (utf8_decode strict (map (\<lambda>i. unat (ubyte_at m (data s + i))) [0..<CharSlice.len s])
                = Inl UnicodeDecodeError
                \<longrightarrow> REPLACEMENT_CHARACTER \<in> set r))"
proof -
  assume a: "data s \<noteq> NULL" "0 < CharSlice.len s"
  let ?bs = "map (\<lambda>i. unat (ubyte_at m (data s + i))) [0..<CharSlice.len s]"
  have eq: "to_str m s = utf8_decode replace ?bs"
    using a by (simp add: to_str_def Let_def bytearray_def contents_def sizeof_c_ubyte_def o_def)
  obtain r where r: "utf8_decode replace ?bs = Inr r"
    using utf8_decode_replace_total by blast
  have "\<forall>r'. utf8_decode strict ?bs = Inr r' \<longrightarrow> r = r'"
    using utf8_decode_strict_Inr r by fastforce
  moreover have "utf8_decode strict ?bs = Inl UnicodeDecodeError \<longrightarrow> REPLACEMENT_CHARACTER \<in> set r"
    using utf8_decode_strict_Inl r by fastforce
  ultimately show ?thesis using eq r by simp
qed

theorem to_str_decodes_lossy_witness:
  "data \<lparr>data = 100, len = 5\<rparr> \<noteq> NULL \<and> 0 < CharSlice.len \<lparr>data = 100, len = 5\<rparr>
   \<and> to_str sample_memory \<lparr>data = 100, len = 5\<rparr> = Inr [104, 233, 65533, 33]
   \<and> utf8_decode strict [104, 195, 169, 255, 33] = Inl UnicodeDecodeError"
proof -
  let ?s = "\<lparr>data = 100, len = 5\<rparr>"
  have d: "data ?s \<noteq> NULL"
    by (simp add: NULL_def)
  have l: "0 < CharSlice.len ?s"
    by simp
  have bs: "map (\<lambda>i. unat (ubyte_at sample_memory (data ?s + i))) [0..<CharSlice.len ?s]
              = [104, 195, 169, 255, 33]"
    by (simp add: sample_memory_def upt_rec)
  have "to_str sample_memory ?s =
          utf8_decode replace
            (map (\<lambda>i. unat (ubyte_at sample_memory (data ?s + i))) [0..<CharSlice.len ?s])"
    using to_str_decodes_lossy [OF d l, of sample_memory] by (rule conjunct1)
  then have "to_str sample_memory ?s = Inr [104, 233, 65533, 33]"
    by (simp only: bs sample_replace)
  with d l sample_strict show ?thesis
    by blast
qed

text \<open>
  C4: for a vector with a non-null \<open>ptr\<close> and \<open>len = n > 0\<close>, \<open>to_list\<close>
  has exactly \<open>n\<close> entries, entry \<open>i\<close> being \<open>ptr[i]\<close>; whatever sequence
  of fields the memory holds there, duplicates of a key included, is returned as
  it stands.
\<close>

theorem to_list_in_order:
  "ptr v \<noteq> NULL \<Longrightarrow> 0 < LogFieldVec.len v \<Longrightarrow>
     length (to_list m v) = LogFieldVec.len v
     \<and> (\<forall>i < LogFieldVec.len v. to_list m v ! i = LogField_at m (ptr v + i * sizeof_LogField))
     \<and> (\<forall>fs. length fs = LogFieldVec.len v
             \<and> (\<forall>i < LogFieldVec.len v. LogField_at m (ptr v + i * sizeof_LogField) = fs ! i)
           \<longrightarrow> to_list m v = fs)"
  by (auto simp: to_list_def intro!: nth_equalityI)

theorem to_list_in_order_witness:
  "ptr \<lparr>ptr = 1000, len = 2, capacity = 2\<rparr> \<noteq> NULL
   \<and> 0 < LogFieldVec.len \<lparr>ptr = 1000, len = 2, capacity = 2\<rparr>
   \<and> to_list sample_memory \<lparr>ptr = 1000, len = 2, capacity = 2\<rparr> =
       [\<lparr>key = \<lparr>data = 200, len = 1\<rparr>, value = \<lparr>data = 300, len = 1\<rparr>\<rparr>,
        \<lparr>key = \<lparr>data = 200, len = 1\<rparr>, value = \<lparr>data = 301, len = 1\<rparr>\<rparr>]"
  using to_list_in_order [of "\<lparr>ptr = 1000, len = 2, capacity = 2\<rparr>" sample_memory]
  by (simp add: NULL_def sizeof_LogField_def sample_memory_def less_Suc_eq numeral_2_eq_2)

text \<open>
  C5: every call of \<open>ddog_logger_init\<close> leaves the wrapped callback in
  \<open>_callback_holder\<close>, whatever was held before; no call of the other wrappers
  changes it; the next call of \<open>ddog_logger_init\<close> replaces it.
\<close>

theorem init_holds_callback:
  "\<forall>c \<in> set cs. \<not> is_Init c \<Longrightarrow>
     callback_holder (snd (ddog_logger_init lib lvl callback w)) = Some (CALLBACK_TYPE callback)
     \<and> callback_holder (run lib cs (snd (ddog_logger_init lib lvl callback w)))
         = Some (CALLBACK_TYPE callback)
     \<and> callback_holder
         (snd (ddog_logger_init lib lvl2 callback2
                (run lib cs (snd (ddog_logger_init lib lvl callback w)))))
         = Some (CALLBACK_TYPE callback2)"
  by (simp add: run_holder) (simp add: ddog_logger_init_eq)

theorem init_holds_callback_witness:
  "\<not> is_Init (SetMaxLogLevel 3) \<and> \<not> is_Init TriggerLogs \<and> \<not> is_Init TriggerLogsWithArgs
   \<and> callback_holder (snd (ddog_logger_init once_lib 0 7 registered_1)) = Some (CALLBACK_TYPE 7)
   \<and> callback_holder
       (run once_lib [SetMaxLogLevel 3, TriggerLogs, TriggerLogsWithArgs, SetMaxLogLevel 1]
          (snd (ddog_logger_init once_lib 0 7 registered_1)))
       = Some (CALLBACK_TYPE 7)
   \<and> callback_holder
       (snd (ddog_logger_init once_lib 2 9
         (run once_lib [SetMaxLogLevel 3, TriggerLogs, TriggerLogsWithArgs, SetMaxLogLevel 1]
            (snd (ddog_logger_init once_lib 0 7 registered_1)))))
       = Some (CALLBACK_TYPE 9)"
  using init_holds_callback
    [of "[SetMaxLogLevel 3, TriggerLogs, TriggerLogsWithArgs, SetMaxLogLevel 1]"
        once_lib 0 7 registered_1 2 9]
  by simp

text \<open>
  C6: a call of \<open>ddog_logger_init\<close> that fails should leave the registration
  as it was. The code does not: \<open>_callback_holder\<close> is assigned before the
  native call and never restored. With callback 1 registered and held, a second
  registration that the library refuses raises \<open>RuntimeError\<close>; the library
  still has callback 1 registered, and the holder, which exists to keep the
  registered callback from being collected, now holds callback 2 and no longer
  callback 1.
\<close>

theorem init_failure_replaces_holder:
  "callback_holder registered_1 = Some (CALLBACK_TYPE 1)
   \<and> registered (native registered_1) = Some (CALLBACK_TYPE 1)
   \<and> fst (ddog_logger_init once_lib 2 2 registered_1) = Inl (RuntimeError error_message)
   \<and> registered (native (snd (ddog_logger_init once_lib 2 2 registered_1)))
       = Some (CALLBACK_TYPE 1)
   \<and> max_level (native (snd (ddog_logger_init once_lib 2 2 registered_1)))
       = max_level (native registered_1)
   \<and> callback_holder (snd (ddog_logger_init once_lib 2 2 registered_1)) = Some (CALLBACK_TYPE 2)
   \<and> snd (ddog_logger_init once_lib 2 2 registered_1) \<noteq> registered_1"
  by (simp add: ddog_logger_init_eq once_lib_simps registered_1_def check_error_Inl NULL_def)

text \<open>
  C7: \<open>ddog_logger_set_max_log_level\<close> changes nothing but the state of the
  native library, by its one native call; \<open>_callback_holder\<close> is as before,
  whether the call returns or raises.
\<close>

theorem set_max_log_level_frame:
  "snd (ddog_logger_set_max_log_level lib lvl w) =
     w\<lparr>native := snd (lib_ddog_logger_set_max_log_level lib (c_int_from_param lvl) (native w))\<rparr>
   \<and> callback_holder (snd (ddog_logger_set_max_log_level lib lvl w)) = callback_holder w"
  by (simp add: ddog_logger_set_max_log_level_eq)

text \<open>
  C8: with a sink registered, \<open>emit\<close> invokes it exactly once, with the event
  of that level and message and no fields, when the level is at or above the
  threshold, and makes no invocation when it is below.
\<close>

theorem emit_iff_threshold:
  "sink lg = Some f \<Longrightarrow>
     (level_value (threshold lg) \<le> level_value L \<longrightarrow>
        emit L msg lg = [(f, \<lparr>event_level = L, event_message = msg, event_fields = []\<rparr>)])
     \<and> (level_value L < level_value (threshold lg) \<longrightarrow> emit L msg lg = [])
     \<and> (length (emit L msg lg) = 1) = (level_value (threshold lg) \<le> level_value L)"
  by (simp add: emit_def emit_with_fields_def)

theorem emit_iff_threshold_witness:
  "sink (init Warn (5::nat) \<lparr>threshold = Debug, sink = None\<rparr>) = Some 5
   \<and> emit Info [120] (init Warn (5::nat) \<lparr>threshold = Debug, sink = None\<rparr>) = []
   \<and> emit Error [121] (init Warn (5::nat) \<lparr>threshold = Debug, sink = None\<rparr>)
       = [(5, \<lparr>event_level = Error, event_message = [121], event_fields = []\<rparr>)]
   \<and> emit Trace [122] (init Warn (5::nat) \<lparr>threshold = Debug, sink = None\<rparr>)
       = [(5, \<lparr>event_level = Trace, event_message = [122], event_fields = []\<rparr>)]
   \<and> emit Debug [122]
         (set_max_level Debug (init Warn (5::nat) \<lparr>threshold = Debug, sink = None\<rparr>))
       = [(5, \<lparr>event_level = Debug, event_message = [122], event_fields = []\<rparr>)]"
  using emit_iff_threshold [of "init Warn (5::nat) \<lparr>threshold = Debug, sink = None\<rparr>" 5 Info "[120]"]
    emit_iff_threshold [of "init Warn (5::nat) \<lparr>threshold = Debug, sink = None\<rparr>" 5 Error "[121]"]
    emit_iff_threshold [of "init Warn (5::nat) \<lparr>threshold = Debug, sink = None\<rparr>" 5 Trace "[122]"]
    emit_iff_threshold
      [of "set_max_level Debug (init Warn (5::nat) \<lparr>threshold = Debug, sink = None\<rparr>)"
          5 Debug "[122]"]
  by (simp add: init_def set_max_level_def DEBUG_def INFO_def WARN_def ERROR_def TRACE_def)

text \<open>
  C9: for a slice whose \<open>data\<close> is null or whose \<open>len\<close> is 0, \<open>to_str\<close>
  is the empty string whatever the memory holds; \<open>to_str\<close> returns a string
  for every slice.
\<close>

theorem to_str_null_empty:
  "(data s = NULL \<or> CharSlice.len s = 0 \<longrightarrow> (\<forall>m. to_str m s = Inr (lit '''')))
   \<and> (\<exists>r. to_str m s = Inr r)"
  using to_str_total by (simp add: to_str_def)

theorem to_str_null_empty_witness:
  "to_str sample_memory \<lparr>data = 0, len = 5\<rparr> = Inr []
   \<and> to_str sample_memory \<lparr>data = 100, len = 0\<rparr> = Inr []"
  using to_str_null_empty [of "\<lparr>data = 0, len = 5\<rparr>" sample_memory]
    to_str_null_empty [of "\<lparr>data = 100, len = 0\<rparr>" sample_memory]
  by (simp add: NULL_def lit_def)

text \<open>
  C10: \<open>log_callback\<close> returns for every event, whatever integer its level
  is: it prints the thread line, then the line \<open>[name] message\<close>, then one
  line for each field. The name is \<open>DEBUG\<close>, \<open>INFO\<close>, \<open>WARN\<close>,
  \<open>ERROR\<close> or \<open>TRACE\<close> for the levels 0 to 4 and \<open>UNKNOWN(level)\<close>
  for every other level.
\<close>

theorem log_callback_total:
  "(\<exists>msg ls. to_str m (message ev) = Inr msg
      \<and> log_callback m thread_id ev out =
          (Inr (), out @ [lit ''['' @ thread_id @ lit '']'',
                          lit ''['' @ level_name ev @ lit ''] '' @ msg] @ ls)
      \<and> length ls = length (to_list m (fields' ev)))
   \<and> level_name ev =
       (if sint (level ev) = DEBUG then lit ''DEBUG''
        else if sint (level ev) = INFO then lit ''INFO''
        else if sint (level ev) = WARN then lit ''WARN''
        else if sint (level ev) = ERROR then lit ''ERROR''
        else if sint (level ev) = TRACE then lit ''TRACE''
        else lit ''UNKNOWN('' @ str_int (sint (level ev)) @ lit '')'')"
proof -
  obtain msg where msg: "to_str m (message ev) = Inr msg"
    using to_str_total by blast
  let ?out2 = "out @ [lit ''['' @ thread_id @ lit '']'', lit ''['' @ level_name ev @ lit ''] '' @ msg]"
  obtain ls where ls: "print_fields m (to_list m (fields' ev)) ?out2 = (Inr (), ?out2 @ ls)"
    "length ls = length (to_list m (fields' ev))"
    using print_fields_total by blast
  have "log_callback m thread_id ev out = (Inr (), ?out2 @ ls)"
    using msg ls(1) by (simp add: log_callback_def print_def Let_def)
  with msg ls(2) show ?thesis
    by (simp add: level_name_cases DEBUG_def INFO_def WARN_def ERROR_def TRACE_def)
qed

theorem log_callback_total_witness:
  "log_callback sample_memory (lit ''main'') sample_event [] =
     (Inr (), [lit ''[main]'', lit ''[UNKNOWN(7)] h'' @ [233, 65533] @ lit ''!'',
               lit ''  k = 1'', lit ''  k = 2''])
   \<and> level_name sample_event = lit ''UNKNOWN(7)''
   \<and> level_name (sample_event\<lparr>level := - 12\<rparr>) = lit ''UNKNOWN(-12)''
   \<and> level_name (sample_event\<lparr>level := 2\<rparr>) = lit ''WARN''
   \<and> level_name (sample_event\<lparr>level := 4\<rparr>) = lit ''TRACE''"
  using log_callback_total [of sample_memory sample_event "lit ''main''" "[]"]
    log_callback_total [of sample_memory "sample_event\<lparr>level := - 12\<rparr>" "lit ''main''" "[]"]
    log_callback_total [of sample_memory "sample_event\<lparr>level := 2\<rparr>" "lit ''main''" "[]"]
    log_callback_total [of sample_memory "sample_event\<lparr>level := 4\<rparr>" "lit ''main''" "[]"]
    sample_event_output
  by (simp add: sample_event_def str_int_def str_nat_7 str_nat_12 lit_def
        DEBUG_def INFO_def WARN_def ERROR_def TRACE_def)

end
